theory Spec2Isabelle
  imports Main "HOL-Library.Word"
begin

section \<open>The emotion rotation example (examples/basic\_usage.c)\<close>

text \<open>
  The source is one C file that drives an animated-image widget from a timer. Its state is
  three file-scope variables: the widget pointer \<open>emotion_gif\<close>, the timer pointer
  \<open>emotion_timer\<close> and the counter \<open>current_emotion_index\<close>. Everything else it
  touches belongs to collaborators whose code is not part of the file: the asset library
  (\<open>otto_emoji_gif_get_by_name\<close>, \<open>staticstate\<close>), the widget toolkit
  (\<open>lv_gif_set_src\<close>, \<open>lv_timer_create\<close>, \<open>lv_timer_del\<close>), the logger
  (\<open>ESP_LOGx\<close>) and the task delay (\<open>vTaskDelay\<close>).

  The model passes the state explicitly. Calls into the collaborators that a user can
  observe are appended to a trace, in program order.
\<close>

subsection \<open>Collaborators\<close>

text \<open>
  What the asset library and the host operating system provide is taken as a parameter:
  the lookup by name (\<open>None\<close> is the C \<open>NULL\<close>), the version string, the asset count,
  the default asset \<open>staticstate\<close>, and the macro converting milliseconds to scheduler
  ticks. The type \<open>'img\<close> stands for \<open>const lv_img_dsc_t *\<close>.
\<close>

record 'img env =
  otto_emoji_gif_get_by_name :: "string \<Rightarrow> 'img option"
  otto_emoji_gif_get_version :: string
  otto_emoji_gif_get_count :: int
  staticstate :: 'img
  pdMS_TO_TICKS :: "nat \<Rightarrow> nat"

datatype esp_log_level = ESP_LOG_ERROR | ESP_LOG_WARN | ESP_LOG_INFO

text \<open>
  One constructor for each format string of the source, in the order of the file, with the
  format's argument. The texts themselves are not ASCII and are not reproduced.
\<close>

datatype log_msg =
    Msg_switched string             \<comment> \<open>line 35\<close>
  | Msg_not_found_default string    \<comment> \<open>line 37\<close>
  | Msg_version string              \<comment> \<open>line 50\<close>
  | Msg_count int                   \<comment> \<open>line 51\<close>
  | Msg_display_created             \<comment> \<open>line 82\<close>
  | Msg_gif_uninitialised           \<comment> \<open>line 90\<close>
  | Msg_manual_set string           \<comment> \<open>line 97\<close>
  | Msg_not_found string            \<comment> \<open>line 99\<close>
  | Msg_stopped                     \<comment> \<open>line 110\<close>
  | Msg_started                     \<comment> \<open>line 120\<close>
  | Msg_demo_begin                  \<comment> \<open>line 128\<close>
  | Msg_demo_done                   \<comment> \<open>line 138\<close>

datatype 'img effect =
    Log esp_log_level log_msg
  | Gif_set_src 'img
  | Task_delay nat

text \<open>The animated-image widget: all that the file reads or writes of it is its source.\<close>

record 'img lv_gif =
  gif_src :: "'img option"

record lv_timer =
  timer_id :: nat
  timer_period :: nat

subsection \<open>Program state\<close>

text \<open>
  \<open>current_emotion_index\<close> is a C \<open>int\<close>, 32 bits on the target; \<open>sint\<close> reads it.
  \<open>lv_timers\<close> and \<open>lv_timer_next\<close> are the toolkit's list of live timers and its
  allocator; every timer this file creates has \<open>emotion_timer_callback\<close> as callback.
\<close>

record 'img state =
  emotion_gif :: "'img lv_gif option"
  emotion_timer :: "lv_timer option"
  current_emotion_index :: "32 word"
  lv_timers :: "lv_timer list"
  lv_timer_next :: nat
  trace :: "'img effect list"

definition initial_state :: "'img state" where
  "initial_state =
     \<lparr>emotion_gif = None, emotion_timer = None, current_emotion_index = 0,
      lv_timers = [], lv_timer_next = 0, trace = []\<rparr>"

definition emotion_sequence :: "string list" where
  "emotion_sequence = [''staticstate'', ''happy'', ''sad'', ''anger'', ''scare'', ''buxue'']"

subsection \<open>Calls into the collaborators\<close>

definition ESP_LOG :: "esp_log_level \<Rightarrow> log_msg \<Rightarrow> 'img state \<Rightarrow> 'img state" where
  "ESP_LOG lvl m s = s\<lparr>trace := trace s @ [Log lvl m]\<rparr>"

text \<open>
  \<open>lv_gif_set_src(obj, img)\<close>. The object is held in the state through the only pointer
  to it, \<open>emotion_gif\<close>, so the updated object is written back there.
\<close>

definition lv_gif_set_src :: "'img lv_gif \<Rightarrow> 'img \<Rightarrow> 'img state \<Rightarrow> 'img state" where
  "lv_gif_set_src obj img s =
     s\<lparr>emotion_gif := Some (obj\<lparr>gif_src := Some img\<rparr>),
       trace := trace s @ [Gif_set_src img]\<rparr>"

definition lv_gif_create :: "'img lv_gif" where
  "lv_gif_create = \<lparr>gif_src = None\<rparr>"

definition vTaskDelay :: "nat \<Rightarrow> 'img state \<Rightarrow> 'img state" where
  "vTaskDelay ticks s = s\<lparr>trace := trace s @ [Task_delay ticks]\<rparr>"

text \<open>
  Modelled from the spec: the Timer/Scheduler Host, which "provides
  \<open>create(callback, interval_ms)\<close> and \<open>delete(handle)\<close> primitives". Creating a timer
  allocates a fresh handle and adds it to the host's live timers; deleting removes it.
  Allocation is taken to succeed.
\<close>

definition lv_timer_create :: "nat \<Rightarrow> 'img state \<Rightarrow> lv_timer \<times> 'img state" where
  "lv_timer_create period s =
     (let t = \<lparr>timer_id = lv_timer_next s, timer_period = period\<rparr>
      in (t, s\<lparr>lv_timers := lv_timers s @ [t], lv_timer_next := Suc (lv_timer_next s)\<rparr>))"

definition lv_timer_del :: "lv_timer \<Rightarrow> 'img state \<Rightarrow> 'img state" where
  "lv_timer_del t s = s\<lparr>lv_timers := removeAll t (lv_timers s)\<rparr>"

subsection \<open>The functions of the file\<close>

text \<open>
  Reading \<open>a[i]\<close> with a C \<open>int\<close> index: outside the array the behaviour is undefined,
  which the model reports as \<open>None\<close>.
\<close>

definition array_read :: "'a list \<Rightarrow> 32 word \<Rightarrow> 'a option" where
  "array_read a i =
     (if 0 \<le> sint i \<and> nat (sint i) < length a then Some (a ! nat (sint i)) else None)"

text \<open>
  \<open>emotion_timer_callback\<close>, lines 25 to 44. The argument \<open>seq\<close> is the static array
  \<open>emotion_sequence\<close>; \<open>sizeof(seq) / sizeof(seq[0])\<close> is its length as an unsigned
  32-bit value, so the remainder is the unsigned one, which is \<open>mod\<close> on words. The
  result \<open>None\<close> is undefined behaviour (the read past the array).
\<close>

definition emotion_timer_callback ::
    "'img env \<Rightarrow> string list \<Rightarrow> 'img state \<Rightarrow> 'img state option" where
  "emotion_timer_callback env seq s =
     (case emotion_gif s of
        None \<Rightarrow> Some s
      | Some gif \<Rightarrow>
          (case array_read seq (current_emotion_index s) of
             None \<Rightarrow> None
           | Some emotion_name \<Rightarrow>
               (let s1 =
                  (case otto_emoji_gif_get_by_name env emotion_name of
                     Some emotion \<Rightarrow>
                       ESP_LOG ESP_LOG_INFO (Msg_switched emotion_name)
                         (lv_gif_set_src gif emotion s)
                   | None \<Rightarrow>
                       lv_gif_set_src gif (staticstate env)
                         (ESP_LOG ESP_LOG_WARN (Msg_not_found_default emotion_name) s))
                in Some (s1\<lparr>current_emotion_index :=
                              (current_emotion_index s1 + 1) mod word_of_nat (length seq)\<rparr>))))"

text \<open>
  \<open>create_emotion_display\<close>, lines 49 to 83. The container and the two labels only
  change the toolkit's object tree, which the state does not hold.
\<close>

definition create_emotion_display :: "'img env \<Rightarrow> 'img state \<Rightarrow> 'img state" where
  "create_emotion_display env s =
     (let s1 = ESP_LOG ESP_LOG_INFO (Msg_version (otto_emoji_gif_get_version env)) s;
          s2 = ESP_LOG ESP_LOG_INFO (Msg_count (otto_emoji_gif_get_count env)) s1;
          gif = lv_gif_create;
          s3 = s2\<lparr>emotion_gif := Some gif\<rparr>;
          s4 = lv_gif_set_src gif (staticstate env) s3;
          (t, s5) = lv_timer_create 3000 s4;
          s6 = s5\<lparr>emotion_timer := Some t\<rparr>
      in ESP_LOG ESP_LOG_INFO Msg_display_created s6)"

text \<open>\<open>set_emotion_by_name\<close>, lines 88 to 101.\<close>

definition set_emotion_by_name :: "'img env \<Rightarrow> string \<Rightarrow> 'img state \<Rightarrow> 'img state" where
  "set_emotion_by_name env emotion_name s =
     (case emotion_gif s of
        None \<Rightarrow> ESP_LOG ESP_LOG_ERROR Msg_gif_uninitialised s
      | Some gif \<Rightarrow>
          (case otto_emoji_gif_get_by_name env emotion_name of
             Some emotion \<Rightarrow>
               ESP_LOG ESP_LOG_INFO (Msg_manual_set emotion_name) (lv_gif_set_src gif emotion s)
           | None \<Rightarrow> ESP_LOG ESP_LOG_WARN (Msg_not_found emotion_name) s))"

text \<open>\<open>stop_auto_emotion_switch\<close>, lines 106 to 112.\<close>

definition stop_auto_emotion_switch :: "'img state \<Rightarrow> 'img state" where
  "stop_auto_emotion_switch s =
     (case emotion_timer s of
        Some t \<Rightarrow> ESP_LOG ESP_LOG_INFO Msg_stopped ((lv_timer_del t s)\<lparr>emotion_timer := None\<rparr>)
      | None \<Rightarrow> s)"

text \<open>\<open>start_auto_emotion_switch\<close>, lines 117 to 122.\<close>

definition start_auto_emotion_switch :: "'img state \<Rightarrow> 'img state" where
  "start_auto_emotion_switch s =
     (case emotion_timer s of
        None \<Rightarrow>
          (let (t, s1) = lv_timer_create 3000 s
           in ESP_LOG ESP_LOG_INFO Msg_started (s1\<lparr>emotion_timer := Some t\<rparr>))
      | Some t \<Rightarrow> s)"

text \<open>
  \<open>demo_all_emotions\<close>, lines 127 to 139: the local array, its length, and the
  \<open>for\<close> loop over the counter \<open>i\<close>.
\<close>

definition all_emotions :: "string list" where
  "all_emotions = [''staticstate'', ''happy'', ''sad'', ''anger'', ''scare'', ''buxue'']"

definition emotion_count :: int where
  "emotion_count = int (length all_emotions)"

function demo_loop :: "'img env \<Rightarrow> int \<Rightarrow> 'img state \<Rightarrow> 'img state" where
  "demo_loop env i s =
     (if i < emotion_count
      then demo_loop env (i + 1)
             (vTaskDelay (pdMS_TO_TICKS env 2000)
                (set_emotion_by_name env (all_emotions ! nat i) s))
      else s)"
  by pat_completeness auto
termination
  by (relation "measure (\<lambda>(env, i, s). nat (emotion_count - i))") auto

declare demo_loop.simps [simp del]

definition demo_all_emotions :: "'img env \<Rightarrow> 'img state \<Rightarrow> 'img state" where
  "demo_all_emotions env s =
     ESP_LOG ESP_LOG_INFO Msg_demo_done (demo_loop env 0 (ESP_LOG ESP_LOG_INFO Msg_demo_begin s))"

subsection \<open>The host firing timers, and repeated ticks\<close>

text \<open>
  Modelled from the spec: "Single active timer/periodic-task drives \<open>tick()\<close>". When the
  period elapses the host runs the callback of every live timer, in turn; a deleted timer
  is not in the list and is not run.
\<close>

fun run_timers :: "'img env \<Rightarrow> lv_timer list \<Rightarrow> 'img state \<Rightarrow> 'img state option" where
  "run_timers env [] s = Some s"
| "run_timers env (t # ts) s =
     (case emotion_timer_callback env emotion_sequence s of
        None \<Rightarrow> None
      | Some s' \<Rightarrow> run_timers env ts s')"

definition lv_timer_handler :: "'img env \<Rightarrow> 'img state \<Rightarrow> 'img state option" where
  "lv_timer_handler env s = run_timers env (lv_timers s) s"

text \<open>The callback run \<open>n\<close> times in a row.\<close>

fun ticks :: "'img env \<Rightarrow> string list \<Rightarrow> nat \<Rightarrow> 'img state \<Rightarrow> 'img state option" where
  "ticks env seq 0 s = Some s"
| "ticks env seq (Suc n) s =
     (case emotion_timer_callback env seq s of
        None \<Rightarrow> None
      | Some s' \<Rightarrow> ticks env seq n s')"

text \<open>The images handed to the widget, oldest first, and the diagnostics of a trace.\<close>

fun displayed :: "'img effect list \<Rightarrow> 'img list" where
  "displayed [] = []"
| "displayed (Gif_set_src img # es) = img # displayed es"
| "displayed (e # es) = displayed es"

fun diagnostics :: "'img effect list \<Rightarrow> (esp_log_level \<times> log_msg) list" where
  "diagnostics [] = []"
| "diagnostics (Log lvl m # es) = (lvl, m) # diagnostics es"
| "diagnostics (e # es) = diagnostics es"

subsection \<open>Invariants\<close>

text \<open>The index is a valid position of the sequence, read as the signed \<open>int\<close> it is.\<close>

definition index_in_range :: "'img state \<Rightarrow> bool" where
  "index_in_range s =
     (0 \<le> sint (current_emotion_index s) \<and>
      sint (current_emotion_index s) < int (length emotion_sequence))"

text \<open>The host's live timers are exactly the one the file holds a pointer to, if any.\<close>

definition timer_owned :: "'img state \<Rightarrow> bool" where
  "timer_owned s =
     (lv_timers s = (case emotion_timer s of None \<Rightarrow> [] | Some t \<Rightarrow> [t]))"

subsection \<open>The example scenario\<close>

text \<open>
  The scenario of the specification: image handles are the asset names themselves, the
  registry holds only \<open>a\<close> and \<open>b\<close>, and the fallback is \<open>default\<close>.
  \<open>ready_state\<close> is the initial state with the widget constructed and nothing shown yet.
\<close>

definition scenario_env :: "string env" where
  "scenario_env =
     \<lparr>otto_emoji_gif_get_by_name = (\<lambda>n. if n = ''a'' \<or> n = ''b'' then Some n else None),
      otto_emoji_gif_get_version = ''1.0'',
      otto_emoji_gif_get_count = 2,
      staticstate = ''default'',
      pdMS_TO_TICKS = (\<lambda>ms. ms)\<rparr>"

definition ready_state :: "'img state" where
  "ready_state = initial_state\<lparr>emotion_gif := Some lv_gif_create\<rparr>"

section \<open>Auxiliary facts\<close>

subsection \<open>Traces\<close>

lemma displayed_append: "displayed (xs @ ys) = displayed xs @ displayed ys"
  by (induction xs rule: displayed.induct) simp_all

lemma diagnostics_append: "diagnostics (xs @ ys) = diagnostics xs @ diagnostics ys"
  by (induction xs rule: diagnostics.induct) simp_all

subsection \<open>The index as a machine integer\<close>

lemma sint_small_cases:
  fixes i :: "32 word"
  assumes "0 \<le> sint i" and "sint i < 6"
  shows "i = 0 \<or> i = 1 \<or> i = 2 \<or> i = 3 \<or> i = 4 \<or> i = 5"
proof -
  have "sint i = 0 \<or> sint i = 1 \<or> sint i = 2 \<or> sint i = 3 \<or> sint i = 4 \<or> sint i = 5"
    using assms by arith
  moreover have "word_of_int (sint i) = i" by simp
  ultimately show ?thesis
    by (metis word_of_int_0 word_of_int_1 word_of_int_numeral)
qed

lemma index_in_range_cases:
  "index_in_range s \<longleftrightarrow> current_emotion_index s \<in> {0, 1, 2, 3, 4, 5}"
  unfolding index_in_range_def emotion_sequence_def
  using sint_small_cases [of "current_emotion_index s"] by auto

lemma array_read_in_range:
  "index_in_range s \<Longrightarrow>
   array_read emotion_sequence (current_emotion_index s) =
     Some (emotion_sequence ! nat (sint (current_emotion_index s)))"
  by (auto simp add: index_in_range_def array_read_def)

lemma length_emotion_sequence: "length emotion_sequence = 6"
  by (simp add: emotion_sequence_def)

subsection \<open>One run of the timer callback\<close>

lemma tick_initialised:
  assumes "emotion_gif s = Some gif" and "index_in_range s"
  shows "emotion_timer_callback env emotion_sequence s =
     Some (let name = emotion_sequence ! nat (sint (current_emotion_index s)) in
           case otto_emoji_gif_get_by_name env name of
             Some e \<Rightarrow>
               s\<lparr>emotion_gif := Some (gif\<lparr>gif_src := Some e\<rparr>),
                 current_emotion_index := (current_emotion_index s + 1) mod 6,
                 trace := trace s @ [Gif_set_src e, Log ESP_LOG_INFO (Msg_switched name)]\<rparr>
           | None \<Rightarrow>
               s\<lparr>emotion_gif := Some (gif\<lparr>gif_src := Some (staticstate env)\<rparr>),
                 current_emotion_index := (current_emotion_index s + 1) mod 6,
                 trace := trace s @ [Log ESP_LOG_WARN (Msg_not_found_default name),
                                     Gif_set_src (staticstate env)]\<rparr>)"
  using assms
  by (simp add: emotion_timer_callback_def array_read_in_range length_emotion_sequence
      ESP_LOG_def lv_gif_set_src_def Let_def split: option.splits)

lemma tick_uninitialised:
  "emotion_gif s = None \<Longrightarrow> emotion_timer_callback env seq s = Some s"
  by (simp add: emotion_timer_callback_def)

lemma next_index_sint:
  fixes i :: "32 word"
  assumes "0 \<le> sint i" and "sint i < 6"
  shows "sint ((i + 1) mod 6) = (sint i + 1) mod 6"
  using sint_small_cases [OF assms] by auto

lemma next_index_in_range:
  fixes i :: "32 word"
  assumes "0 \<le> sint i" and "sint i < 6"
  shows "0 \<le> sint ((i + 1) mod 6) \<and> sint ((i + 1) mod 6) < 6"
  using sint_small_cases [OF assms] by auto

lemma tick_summary:
  assumes "emotion_gif s = Some gif" and "index_in_range s"
  shows "\<exists>s'. emotion_timer_callback env emotion_sequence s = Some s' \<and>
           emotion_gif s' \<noteq> None \<and> index_in_range s' \<and>
           emotion_timer s' = emotion_timer s \<and> lv_timers s' = lv_timers s \<and>
           lv_timer_next s' = lv_timer_next s \<and>
           current_emotion_index s' = (current_emotion_index s + 1) mod 6"
proof -
  have r: "0 \<le> sint (current_emotion_index s)" "sint (current_emotion_index s) < 6"
    using assms(2) by (simp_all add: index_in_range_def length_emotion_sequence)
  show ?thesis
    using next_index_in_range [OF r]
    by (simp add: tick_initialised [OF assms] Let_def index_in_range_def
        length_emotion_sequence split: option.splits)
qed

lemma tick_any:
  assumes "index_in_range s"
  shows "\<exists>s'. emotion_timer_callback env emotion_sequence s = Some s' \<and> index_in_range s' \<and>
           emotion_timer s' = emotion_timer s \<and> lv_timers s' = lv_timers s"
proof (cases "emotion_gif s")
  case None
  then show ?thesis using assms by (simp add: tick_uninitialised)
next
  case (Some gif)
  from tick_summary [OF Some assms, of env] show ?thesis by blast
qed

lemma run_timers_in_range:
  "index_in_range s \<Longrightarrow> \<exists>s'. run_timers env ts s = Some s' \<and> index_in_range s'"
proof (induction ts arbitrary: s)
  case Nil
  then show ?case by simp
next
  case (Cons t ts)
  from tick_any [OF Cons.prems, of env] obtain s1 where
    s1: "emotion_timer_callback env emotion_sequence s = Some s1" "index_in_range s1"
    by blast
  from Cons.IH [OF s1(2)] s1(1) show ?case by simp
qed

subsection \<open>Repeated runs\<close>

lemma word_cycle6:
  fixes i :: "32 word"
  assumes "i \<in> {0, 1, 2, 3, 4, 5}"
  shows "((((((i + 1) mod 6 + 1) mod 6 + 1) mod 6 + 1) mod 6 + 1) mod 6 + 1) mod 6 = i"
  using assms by auto

lemma ticks_numeral:
  "ticks env seq (numeral k) s =
     (case emotion_timer_callback env seq s of
        None \<Rightarrow> None
      | Some s' \<Rightarrow> ticks env seq (pred_numeral k) s')"
  by (simp add: numeral_eq_Suc)

lemma ticks_index:
  assumes "emotion_gif s \<noteq> None" and "index_in_range s"
  shows "\<exists>s'. ticks env emotion_sequence n s = Some s' \<and> emotion_gif s' \<noteq> None \<and>
           index_in_range s' \<and>
           current_emotion_index s' = ((\<lambda>i. (i + 1) mod 6) ^^ n) (current_emotion_index s)"
  using assms
proof (induction n arbitrary: s)
  case 0
  then show ?case by simp
next
  case (Suc n)
  from Suc.prems obtain gif where g: "emotion_gif s = Some gif" by blast
  from tick_summary [OF g Suc.prems(2), of env] obtain s1 where
    s1: "emotion_timer_callback env emotion_sequence s = Some s1" "emotion_gif s1 \<noteq> None"
        "index_in_range s1" "current_emotion_index s1 = (current_emotion_index s + 1) mod 6"
    by blast
  from Suc.IH [OF s1(2) s1(3)] obtain s' where
    s': "ticks env emotion_sequence n s1 = Some s'" "emotion_gif s' \<noteq> None" "index_in_range s'"
        "current_emotion_index s' = ((\<lambda>i. (i + 1) mod 6) ^^ n) (current_emotion_index s1)"
    by blast
  show ?case
    using s1(1) s1(4) s' by (simp add: funpow_Suc_right del: funpow.simps)
qed

subsection \<open>Manual override and the demonstration loop\<close>

lemma set_emotion_by_name_index:
  "current_emotion_index (set_emotion_by_name env n s) = current_emotion_index s"
  by (simp add: set_emotion_by_name_def ESP_LOG_def lv_gif_set_src_def split: option.splits)

lemma set_emotion_by_name_in_range:
  "index_in_range (set_emotion_by_name env n s) = index_in_range s"
  by (simp add: index_in_range_def set_emotion_by_name_index)

lemma set_emotion_by_name_trace:
  "emotion_gif s \<noteq> None \<Longrightarrow>
   emotion_gif (set_emotion_by_name env n s) \<noteq> None \<and>
   trace (set_emotion_by_name env n s) = trace s @
     (case otto_emoji_gif_get_by_name env n of
        Some emotion \<Rightarrow> [Gif_set_src emotion, Log ESP_LOG_INFO (Msg_manual_set n)]
      | None \<Rightarrow> [Log ESP_LOG_WARN (Msg_not_found n)])"
  by (auto simp add: set_emotion_by_name_def ESP_LOG_def lv_gif_set_src_def split: option.splits)

lemma set_emotion_by_name_timers:
  "emotion_timer (set_emotion_by_name env n s) = emotion_timer s \<and>
   lv_timers (set_emotion_by_name env n s) = lv_timers s"
  by (simp add: set_emotion_by_name_def ESP_LOG_def lv_gif_set_src_def split: option.splits)

lemma demo_loop_index:
  "current_emotion_index (demo_loop env i s) = current_emotion_index s"
proof (induction env i s rule: demo_loop.induct)
  case (1 env i s)
  show ?case
  proof (cases "i < emotion_count")
    case True
    then show ?thesis
      using "1.IH" by (simp add: demo_loop.simps [of env i s] vTaskDelay_def set_emotion_by_name_index)
  next
    case False
    then show ?thesis by (simp add: demo_loop.simps [of env i s])
  qed
qed

lemma demo_loop_foldl:
  "0 \<le> i \<Longrightarrow>
   demo_loop env i s =
     foldl (\<lambda>s n. vTaskDelay (pdMS_TO_TICKS env 2000) (set_emotion_by_name env n s)) s
       (drop (nat i) all_emotions)"
proof (induction env i s rule: demo_loop.induct)
  case (1 env i s)
  show ?case
  proof (cases "i < emotion_count")
    case True
    with "1.prems" have l: "nat i < length all_emotions"
      by (simp add: emotion_count_def)
    have n: "nat (i + 1) = Suc (nat i)"
      using "1.prems" by simp
    from "1.prems" have "0 \<le> i + 1" by simp
    from "1.IH" [OF True this] show ?thesis
      using True by (simp add: demo_loop.simps [of env i s] n Cons_nth_drop_Suc [OF l, symmetric])
  next
    case False
    then show ?thesis
      by (simp add: demo_loop.simps [of env i s] emotion_count_def)
  qed
qed

lemma demo_steps_trace:
  "emotion_gif s \<noteq> None \<Longrightarrow>
   emotion_gif (foldl (\<lambda>s n. vTaskDelay d (set_emotion_by_name env n s)) s ns) \<noteq> None \<and>
   trace (foldl (\<lambda>s n. vTaskDelay d (set_emotion_by_name env n s)) s ns) = trace s @
     concat (map (\<lambda>n.
       (case otto_emoji_gif_get_by_name env n of
          Some emotion \<Rightarrow> [Gif_set_src emotion, Log ESP_LOG_INFO (Msg_manual_set n)]
        | None \<Rightarrow> [Log ESP_LOG_WARN (Msg_not_found n)]) @ [Task_delay d]) ns)"
proof (induction ns arbitrary: s)
  case Nil
  then show ?case by simp
next
  case (Cons n ns)
  let ?s1 = "vTaskDelay d (set_emotion_by_name env n s)"
  from set_emotion_by_name_trace [OF Cons.prems, of env n]
  have g: "emotion_gif ?s1 \<noteq> None"
    and t: "trace ?s1 = trace s @
      (case otto_emoji_gif_get_by_name env n of
         Some emotion \<Rightarrow> [Gif_set_src emotion, Log ESP_LOG_INFO (Msg_manual_set n)]
       | None \<Rightarrow> [Log ESP_LOG_WARN (Msg_not_found n)]) @ [Task_delay d]"
    by (simp_all add: vTaskDelay_def)
  from Cons.IH [OF g] show ?case
    by (simp add: t)
qed

subsection \<open>Starting and stopping\<close>

lemma start_when_active:
  "emotion_timer s = Some t \<Longrightarrow> start_auto_emotion_switch s = s"
  by (simp add: start_auto_emotion_switch_def)

lemma start_when_stopped:
  "emotion_timer s = None \<Longrightarrow>
   start_auto_emotion_switch s =
     s\<lparr>emotion_timer := Some \<lparr>timer_id = lv_timer_next s, timer_period = 3000\<rparr>,
       lv_timers := lv_timers s @ [\<lparr>timer_id = lv_timer_next s, timer_period = 3000\<rparr>],
       lv_timer_next := Suc (lv_timer_next s),
       trace := trace s @ [Log ESP_LOG_INFO Msg_started]\<rparr>"
  by (simp add: start_auto_emotion_switch_def lv_timer_create_def ESP_LOG_def Let_def)

lemma start_makes_active: "emotion_timer (start_auto_emotion_switch s) \<noteq> None"
  by (cases "emotion_timer s") (simp_all add: start_when_stopped start_when_active)

lemma stop_when_stopped:
  "emotion_timer s = None \<Longrightarrow> stop_auto_emotion_switch s = s"
  by (simp add: stop_auto_emotion_switch_def)

lemma stop_when_active:
  "emotion_timer s = Some t \<Longrightarrow>
   stop_auto_emotion_switch s =
     s\<lparr>emotion_timer := None, lv_timers := removeAll t (lv_timers s),
       trace := trace s @ [Log ESP_LOG_INFO Msg_stopped]\<rparr>"
  by (simp add: stop_auto_emotion_switch_def lv_timer_del_def ESP_LOG_def)

lemma stop_makes_stopped: "emotion_timer (stop_auto_emotion_switch s) = None"
  by (cases "emotion_timer s") (simp_all add: stop_when_stopped stop_when_active)

lemma start_twice:
  "start_auto_emotion_switch (start_auto_emotion_switch s) = start_auto_emotion_switch s"
proof -
  from start_makes_active [of s] obtain t where
    "emotion_timer (start_auto_emotion_switch s) = Some t" by blast
  then show ?thesis by (rule start_when_active)
qed

lemma stop_twice:
  "stop_auto_emotion_switch (stop_auto_emotion_switch s) = stop_auto_emotion_switch s"
  using stop_makes_stopped [of s] by (rule stop_when_stopped)

subsection \<open>The single-timer invariant\<close>

text \<open>
  \<open>timer_owned\<close> holds initially, is established by \<open>create_emotion_display\<close> when
  no timer is held, and is kept by every other function of the file. It is not an invariant
  of the program: \<open>create_emotion_display\<close> called while a timer is held overwrites the
  pointer without deleting the timer. Where it does hold, starting leaves one live timer
  and stopping leaves none, so that a firing of the host's timers after a stop changes
  nothing.
\<close>

lemma timer_owned_initial: "timer_owned initial_state"
  by (simp add: timer_owned_def initial_state_def)

lemma timer_owned_create:
  "emotion_timer s = None \<Longrightarrow> timer_owned s \<Longrightarrow> timer_owned (create_emotion_display env s)"
  by (simp add: timer_owned_def create_emotion_display_def ESP_LOG_def lv_gif_set_src_def
      lv_timer_create_def Let_def)

lemma timer_owned_start: "timer_owned s \<Longrightarrow> timer_owned (start_auto_emotion_switch s)"
  by (cases "emotion_timer s") (simp_all add: start_when_stopped start_when_active timer_owned_def)

lemma timer_owned_stop: "timer_owned s \<Longrightarrow> timer_owned (stop_auto_emotion_switch s)"
  by (cases "emotion_timer s") (simp_all add: stop_when_stopped stop_when_active timer_owned_def)

lemma timer_owned_set: "timer_owned s \<Longrightarrow> timer_owned (set_emotion_by_name env n s)"
  by (simp add: timer_owned_def set_emotion_by_name_timers)

lemma demo_loop_timers:
  "emotion_timer (demo_loop env i s) = emotion_timer s \<and>
   lv_timers (demo_loop env i s) = lv_timers s"
proof (induction env i s rule: demo_loop.induct)
  case (1 env i s)
  show ?case
  proof (cases "i < emotion_count")
    case True
    then show ?thesis
      using "1.IH" by (simp add: demo_loop.simps [of env i s] vTaskDelay_def
          set_emotion_by_name_timers)
  next
    case False
    then show ?thesis by (simp add: demo_loop.simps [of env i s])
  qed
qed

lemma timer_owned_demo: "timer_owned s \<Longrightarrow> timer_owned (demo_all_emotions env s)"
  by (simp add: timer_owned_def demo_all_emotions_def demo_loop_timers ESP_LOG_def)

lemma timer_owned_tick:
  "timer_owned s \<Longrightarrow> emotion_timer_callback env seq s = Some s' \<Longrightarrow> timer_owned s'"
  by (auto simp add: timer_owned_def emotion_timer_callback_def ESP_LOG_def lv_gif_set_src_def
      Let_def split: option.splits)

lemma start_when_owned:
  assumes "timer_owned s"
  shows "lv_timers (start_auto_emotion_switch s) =
           [the (emotion_timer (start_auto_emotion_switch s))]"
proof -
  from start_makes_active [of s] obtain t where
    t: "emotion_timer (start_auto_emotion_switch s) = Some t" by blast
  from assms have "timer_owned (start_auto_emotion_switch s)"
    by (rule timer_owned_start)
  with t show ?thesis by (simp add: timer_owned_def)
qed

lemma stop_when_owned:
  assumes "timer_owned s"
  shows "lv_timers (stop_auto_emotion_switch s) = [] \<and>
         lv_timer_handler env (stop_auto_emotion_switch s) = Some (stop_auto_emotion_switch s)"
proof -
  have "timer_owned (stop_auto_emotion_switch s)"
    using assms by (rule timer_owned_stop)
  with stop_makes_stopped [of s] have "lv_timers (stop_auto_emotion_switch s) = []"
    by (simp add: timer_owned_def)
  then show ?thesis by (simp add: lv_timer_handler_def)
qed

section \<open>The claims\<close>

text \<open>
  C1 (as amended). With the widget constructed and the index a valid position, one run of
  the timer callback resolves the name at the \<^emph>\<open>current\<close> index, hands the resolved
  image (or \<open>staticstate\<close> when the name does not resolve) to the widget, and only then
  advances \<open>current_emotion_index\<close> by one modulo the length of the sequence. In the
  scenario with sequence a, b, c, a registry of a and b only, fallback \<open>default\<close> and
  index 0, six runs display a, b, default, a, b, default.
\<close>

theorem tick_displays_current_then_advances:
  "(emotion_gif s = Some gif \<and> index_in_range s \<longrightarrow>
      (\<exists>s'. emotion_timer_callback env emotion_sequence s = Some s' \<and>
         emotion_gif s' =
           Some (gif\<lparr>gif_src := Some
             (case otto_emoji_gif_get_by_name env
                     (emotion_sequence ! nat (sint (current_emotion_index s))) of
                Some emotion \<Rightarrow> emotion | None \<Rightarrow> staticstate env)\<rparr>) \<and>
         displayed (trace s') = displayed (trace s) @
           [case otto_emoji_gif_get_by_name env
                   (emotion_sequence ! nat (sint (current_emotion_index s))) of
              Some emotion \<Rightarrow> emotion | None \<Rightarrow> staticstate env] \<and>
         sint (current_emotion_index s') =
           (sint (current_emotion_index s) + 1) mod int (length emotion_sequence))) \<and>
   map_option (displayed \<circ> trace) (ticks scenario_env [''a'', ''b'', ''c''] 6 ready_state) =
     Some [''a'', ''b'', ''default'', ''a'', ''b'', ''default'']"
proof (intro conjI impI)
  assume a: "emotion_gif s = Some gif \<and> index_in_range s"
  then have g: "emotion_gif s = Some gif" and r: "index_in_range s" by simp_all
  have b: "0 \<le> sint (current_emotion_index s)" "sint (current_emotion_index s) < 6"
    using r by (simp_all add: index_in_range_def length_emotion_sequence)
  show "\<exists>s'. emotion_timer_callback env emotion_sequence s = Some s' \<and>
         emotion_gif s' =
           Some (gif\<lparr>gif_src := Some
             (case otto_emoji_gif_get_by_name env
                     (emotion_sequence ! nat (sint (current_emotion_index s))) of
                Some emotion \<Rightarrow> emotion | None \<Rightarrow> staticstate env)\<rparr>) \<and>
         displayed (trace s') = displayed (trace s) @
           [case otto_emoji_gif_get_by_name env
                   (emotion_sequence ! nat (sint (current_emotion_index s))) of
              Some emotion \<Rightarrow> emotion | None \<Rightarrow> staticstate env] \<and>
         sint (current_emotion_index s') =
           (sint (current_emotion_index s) + 1) mod int (length emotion_sequence)"
    using next_index_sint [OF b]
    by (simp add: tick_initialised [OF g r] Let_def displayed_append length_emotion_sequence
        split: option.splits)
next
  show "map_option (displayed \<circ> trace) (ticks scenario_env [''a'', ''b'', ''c''] 6 ready_state) =
     Some [''a'', ''b'', ''default'', ''a'', ''b'', ''default'']"
    by (simp add: ticks_numeral emotion_timer_callback_def scenario_env_def ready_state_def
        initial_state_def array_read_def lv_gif_create_def ESP_LOG_def lv_gif_set_src_def)
qed

theorem tick_displays_current_then_advances_witness:
  "emotion_gif (ready_state\<lparr>current_emotion_index := 1\<rparr> :: string state) = Some lv_gif_create \<and>
   index_in_range (ready_state\<lparr>current_emotion_index := 1\<rparr> :: string state) \<and>
   (\<exists>s'. emotion_timer_callback (scenario_env\<lparr>otto_emoji_gif_get_by_name := Some\<rparr>)
            emotion_sequence (ready_state\<lparr>current_emotion_index := 1\<rparr>) = Some s' \<and>
         emotion_gif s' = Some \<lparr>gif_src = Some ''happy''\<rparr> \<and>
         displayed (trace s') = [''happy''] \<and>
         sint (current_emotion_index s') = 2)"
proof -
  let ?s = "ready_state\<lparr>current_emotion_index := 1\<rparr> :: string state"
  have g: "emotion_gif ?s = Some lv_gif_create"
    by (simp add: ready_state_def)
  have r: "index_in_range ?s"
    by (simp add: index_in_range_def length_emotion_sequence)
  have t: "trace (ready_state :: string state) = []"
    by (simp add: ready_state_def initial_state_def)
  have n: "emotion_sequence ! Suc 0 = ''happy''"
    by (simp add: emotion_sequence_def)
  from tick_displays_current_then_advances
         [of ?s lv_gif_create "scenario_env\<lparr>otto_emoji_gif_get_by_name := Some\<rparr>"]
  show ?thesis
    using g r by (simp add: t n length_emotion_sequence lv_gif_create_def)
qed

text \<open>
  The claim as written has the callback advance first and display the name at the new
  index, so that the scenario would show b, default, a, b, default, a. The code shows
  a first; on its own sequence the first run from index 0 shows \<open>staticstate\<close>, not
  \<open>happy\<close>, and leaves the index at 1.
\<close>

theorem tick_shows_new_index_counterexample:
  "map_option (displayed \<circ> trace) (ticks scenario_env [''a'', ''b'', ''c''] 6 ready_state) =
     Some [''a'', ''b'', ''default'', ''a'', ''b'', ''default''] \<and>
   map_option (displayed \<circ> trace) (ticks scenario_env [''a'', ''b'', ''c''] 6 ready_state) \<noteq>
     Some [''b'', ''default'', ''a'', ''b'', ''default'', ''a''] \<and>
   map_option (\<lambda>s. (gif_src (the (emotion_gif s)), current_emotion_index s))
     (emotion_timer_callback (scenario_env\<lparr>otto_emoji_gif_get_by_name := Some\<rparr>)
        emotion_sequence ready_state) = Some (Some ''staticstate'', 1) \<and>
   emotion_sequence ! 1 = ''happy''"
  by (simp add: ticks_numeral emotion_timer_callback_def scenario_env_def ready_state_def
      initial_state_def array_read_def lv_gif_create_def ESP_LOG_def lv_gif_set_src_def
      emotion_sequence_def)

text \<open>
  C2. With the widget constructed and the index a valid position, when the name at the
  current index does not resolve, the callback hands \<open>staticstate\<close> to the widget, logs
  one warning, advances the index by one modulo the length, leaves the timer alone, and
  returns normally into a state from which the next run returns normally too.
\<close>

theorem tick_unresolved_falls_back:
  assumes "emotion_gif s = Some gif" and "index_in_range s"
    and "otto_emoji_gif_get_by_name env
           (emotion_sequence ! nat (sint (current_emotion_index s))) = None"
  shows "\<exists>s'. emotion_timer_callback env emotion_sequence s = Some s' \<and>
           emotion_gif s' = Some (gif\<lparr>gif_src := Some (staticstate env)\<rparr>) \<and>
           trace s' = trace s @
             [Log ESP_LOG_WARN
                (Msg_not_found_default (emotion_sequence ! nat (sint (current_emotion_index s)))),
              Gif_set_src (staticstate env)] \<and>
           sint (current_emotion_index s') =
             (sint (current_emotion_index s) + 1) mod int (length emotion_sequence) \<and>
           emotion_timer s' = emotion_timer s \<and> lv_timers s' = lv_timers s \<and>
           index_in_range s' \<and>
           emotion_timer_callback env emotion_sequence s' \<noteq> None"
proof -
  have b: "0 \<le> sint (current_emotion_index s)" "sint (current_emotion_index s) < 6"
    using assms(2) by (simp_all add: index_in_range_def length_emotion_sequence)
  let ?s' = "s\<lparr>emotion_gif := Some (gif\<lparr>gif_src := Some (staticstate env)\<rparr>),
               current_emotion_index := (current_emotion_index s + 1) mod 6,
               trace := trace s @
                 [Log ESP_LOG_WARN
                    (Msg_not_found_default
                       (emotion_sequence ! nat (sint (current_emotion_index s)))),
                  Gif_set_src (staticstate env)]\<rparr>"
  have step: "emotion_timer_callback env emotion_sequence s = Some ?s'"
    using assms(3) by (simp add: tick_initialised [OF assms(1,2)] Let_def)
  have r': "index_in_range ?s'"
    using next_index_in_range [OF b] by (simp add: index_in_range_def length_emotion_sequence)
  have g': "emotion_gif ?s' = Some (gif\<lparr>gif_src := Some (staticstate env)\<rparr>)"
    by simp
  from tick_summary [OF g' r', of env]
  have again: "emotion_timer_callback env emotion_sequence ?s' \<noteq> None"
    by auto
  show ?thesis
    using step r' again next_index_sint [OF b]
    by (simp add: length_emotion_sequence)
qed

theorem tick_unresolved_falls_back_witness:
  "emotion_gif (ready_state :: string state) = Some lv_gif_create \<and>
   index_in_range (ready_state :: string state) \<and>
   otto_emoji_gif_get_by_name scenario_env
     (emotion_sequence ! nat (sint (current_emotion_index (ready_state :: string state)))) = None \<and>
   (\<exists>s'. emotion_timer_callback scenario_env emotion_sequence ready_state = Some s' \<and>
         emotion_gif s' = Some \<lparr>gif_src = Some ''default''\<rparr> \<and>
         trace s' = [Log ESP_LOG_WARN (Msg_not_found_default ''staticstate''),
                     Gif_set_src ''default''] \<and>
         sint (current_emotion_index s') = 1 \<and>
         emotion_timer_callback scenario_env emotion_sequence s' \<noteq> None)"
proof -
  let ?s = "ready_state :: string state"
  have g: "emotion_gif ?s = Some lv_gif_create"
    by (simp add: ready_state_def)
  have i: "current_emotion_index ?s = 0"
    by (simp add: ready_state_def initial_state_def)
  have r: "index_in_range ?s"
    by (simp add: index_in_range_def length_emotion_sequence i)
  have n: "emotion_sequence ! 0 = ''staticstate''"
    by (simp add: emotion_sequence_def)
  have u: "otto_emoji_gif_get_by_name scenario_env
             (emotion_sequence ! nat (sint (current_emotion_index ?s))) = None"
    by (simp add: i n scenario_env_def)
  have t: "trace ?s = []"
    by (simp add: ready_state_def initial_state_def)
  have d: "staticstate scenario_env = ''default''"
    by (simp add: scenario_env_def)
  from tick_unresolved_falls_back [OF g r u] show ?thesis
    using g r u by (simp add: i n t d length_emotion_sequence lv_gif_create_def) blast
qed

text \<open>
  C3. With the widget constructed, \<open>set_emotion_by_name\<close> on a name that does not
  resolve changes nothing but the trace, to which it adds exactly one entry, a warning: the
  widget keeps its image and no image is handed to it.
\<close>

theorem set_by_name_unresolved_keeps_display:
  assumes "emotion_gif s = Some gif" and "otto_emoji_gif_get_by_name env name = None"
  shows "set_emotion_by_name env name s =
           s\<lparr>trace := trace s @ [Log ESP_LOG_WARN (Msg_not_found name)]\<rparr> \<and>
         emotion_gif (set_emotion_by_name env name s) = emotion_gif s \<and>
         displayed (trace (set_emotion_by_name env name s)) = displayed (trace s) \<and>
         diagnostics (trace (set_emotion_by_name env name s)) =
           diagnostics (trace s) @ [(ESP_LOG_WARN, Msg_not_found name)]"
  using assms
  by (simp add: set_emotion_by_name_def ESP_LOG_def displayed_append diagnostics_append)

theorem set_by_name_unresolved_keeps_display_witness:
  "emotion_gif (create_emotion_display scenario_env initial_state) =
     Some \<lparr>gif_src = Some ''default''\<rparr> \<and>
   otto_emoji_gif_get_by_name scenario_env ''c'' = None \<and>
   emotion_gif (set_emotion_by_name scenario_env ''c''
                  (create_emotion_display scenario_env initial_state)) =
     Some \<lparr>gif_src = Some ''default''\<rparr> \<and>
   diagnostics (trace (set_emotion_by_name scenario_env ''c''
                  (create_emotion_display scenario_env initial_state))) =
     diagnostics (trace (create_emotion_display scenario_env initial_state)) @
       [(ESP_LOG_WARN, Msg_not_found ''c'')]"
proof -
  let ?s = "create_emotion_display scenario_env initial_state"
  have g: "emotion_gif ?s = Some \<lparr>gif_src = Some ''default''\<rparr>"
    by (simp add: create_emotion_display_def ESP_LOG_def lv_gif_set_src_def lv_gif_create_def
        lv_timer_create_def Let_def scenario_env_def)
  have u: "otto_emoji_gif_get_by_name scenario_env ''c'' = None"
    by (simp add: scenario_env_def)
  from set_by_name_unresolved_keeps_display [OF g u] g u show ?thesis
    by (simp add: diagnostics_append)
qed

text \<open>
  C4. With the widget constructed and the index a valid position, running the timer
  callback as many times as the sequence is long (six) succeeds and brings
  \<open>current_emotion_index\<close> back to the value it started from, whatever the registry
  resolves.
\<close>

theorem six_ticks_restore_index:
  assumes "emotion_gif s \<noteq> None" and "index_in_range s"
  shows "\<exists>s'. ticks env emotion_sequence (length emotion_sequence) s = Some s' \<and>
           current_emotion_index s' = current_emotion_index s"
proof -
  from ticks_index [OF assms, of env 6] obtain s' where
    s': "ticks env emotion_sequence 6 s = Some s'"
        "current_emotion_index s' = ((\<lambda>i. (i + 1) mod 6) ^^ 6) (current_emotion_index s)"
    by blast
  have "current_emotion_index s \<in> {0, 1, 2, 3, 4, 5}"
    using assms(2) by (simp add: index_in_range_cases)
  from word_cycle6 [OF this] s'(2) have "current_emotion_index s' = current_emotion_index s"
    by (simp add: numeral_eq_Suc)
  with s'(1) show ?thesis by (simp add: length_emotion_sequence)
qed

theorem six_ticks_restore_index_witness:
  "emotion_gif (ready_state\<lparr>current_emotion_index := 4\<rparr> :: string state) \<noteq> None \<and>
   index_in_range (ready_state\<lparr>current_emotion_index := 4\<rparr> :: string state) \<and>
   (\<exists>s'. ticks scenario_env emotion_sequence (length emotion_sequence)
            (ready_state\<lparr>current_emotion_index := 4\<rparr>) = Some s' \<and>
         current_emotion_index s' = 4)"
proof -
  let ?s = "ready_state\<lparr>current_emotion_index := 4\<rparr> :: string state"
  have g: "emotion_gif ?s \<noteq> None"
    by (simp add: ready_state_def)
  have r: "index_in_range ?s"
    by (simp add: index_in_range_def length_emotion_sequence)
  from six_ticks_restore_index [OF g r, of scenario_env] g r show ?thesis
    by simp
qed

text \<open>
  C5 (as amended). While the widget is not constructed, \<open>set_emotion_by_name\<close> changes
  nothing but the trace, to which it adds exactly one entry, at error level; a run of the
  timer callback changes nothing at all and logs nothing.
\<close>

theorem uninitialised_set_logs_error_tick_silent:
  "emotion_gif s = None \<longrightarrow>
     set_emotion_by_name env name s =
       s\<lparr>trace := trace s @ [Log ESP_LOG_ERROR Msg_gif_uninitialised]\<rparr> \<and>
     diagnostics (trace (set_emotion_by_name env name s)) =
       diagnostics (trace s) @ [(ESP_LOG_ERROR, Msg_gif_uninitialised)] \<and>
     emotion_timer_callback env emotion_sequence s = Some s"
  by (simp add: set_emotion_by_name_def ESP_LOG_def diagnostics_append tick_uninitialised)

theorem uninitialised_set_logs_error_tick_silent_witness:
  "emotion_gif (initial_state :: string state) = None \<and>
   set_emotion_by_name scenario_env ''a'' initial_state =
     initial_state\<lparr>trace := [Log ESP_LOG_ERROR Msg_gif_uninitialised]\<rparr> \<and>
   emotion_timer_callback scenario_env emotion_sequence initial_state = Some initial_state"
proof -
  have g: "emotion_gif (initial_state :: string state) = None"
    by (simp add: initial_state_def)
  have t: "trace (initial_state :: string state) = []"
    by (simp add: initial_state_def)
  from uninitialised_set_logs_error_tick_silent [of initial_state scenario_env "''a''"] g
  show ?thesis
    by (simp add: t)
qed

text \<open>
  The claim as written has every operation log the condition at error level. The timer
  callback returns without logging: from the initial state it gives back the same state
  with an empty trace, and after \<open>start_auto_emotion_switch\<close> from the initial state
  (a timer without a widget) a firing of the timer adds no diagnostic to the one that
  \<open>start_auto_emotion_switch\<close> wrote.
\<close>

theorem uninitialised_tick_logs_error_counterexample:
  "emotion_gif (initial_state :: string state) = None \<and>
   emotion_timer_callback scenario_env emotion_sequence initial_state = Some initial_state \<and>
   map_option (diagnostics \<circ> trace)
     (emotion_timer_callback scenario_env emotion_sequence initial_state) = Some [] \<and>
   emotion_gif (start_auto_emotion_switch (initial_state :: string state)) = None \<and>
   map_option (diagnostics \<circ> trace)
     (lv_timer_handler scenario_env (start_auto_emotion_switch initial_state)) =
     Some [(ESP_LOG_INFO, Msg_started)]"
  by (simp add: emotion_timer_callback_def initial_state_def start_auto_emotion_switch_def
      lv_timer_create_def ESP_LOG_def lv_timer_handler_def Let_def)

text \<open>
  C6. Two consecutive calls of \<open>start_auto_emotion_switch\<close> are to leave exactly one
  active timer. The second call is indeed a no-op, but the calls
  \<open>start_auto_emotion_switch(); create_emotion_display(parent)\<close> have already left two:
  line 80 creates a timer and overwrites \<open>emotion_timer\<close> without the test for
  \<open>NULL\<close> that line 118 makes and without deleting the timer held. After two more
  starts both timers are live, and one period of the host runs the callback twice, moving
  the index from 0 to 2.
\<close>

theorem two_starts_after_create_leave_two_timers:
  "emotion_timer (create_emotion_display scenario_env (start_auto_emotion_switch initial_state)) =
     Some \<lparr>timer_id = 1, timer_period = 3000\<rparr> \<and>
   start_auto_emotion_switch (start_auto_emotion_switch
     (create_emotion_display scenario_env (start_auto_emotion_switch initial_state))) =
     create_emotion_display scenario_env (start_auto_emotion_switch initial_state) \<and>
   lv_timers (start_auto_emotion_switch (start_auto_emotion_switch
     (create_emotion_display scenario_env (start_auto_emotion_switch initial_state)))) =
     [\<lparr>timer_id = 0, timer_period = 3000\<rparr>, \<lparr>timer_id = 1, timer_period = 3000\<rparr>] \<and>
   map_option current_emotion_index
     (lv_timer_handler scenario_env (start_auto_emotion_switch (start_auto_emotion_switch
        (create_emotion_display scenario_env (start_auto_emotion_switch initial_state))))) =
     Some 2"
  by (simp add: start_auto_emotion_switch_def create_emotion_display_def initial_state_def
      lv_timer_create_def lv_gif_create_def lv_gif_set_src_def ESP_LOG_def Let_def
      lv_timer_handler_def emotion_timer_callback_def array_read_def emotion_sequence_def
      scenario_env_def)

text \<open>
  C7. After \<open>stop_auto_emotion_switch\<close> a firing of the host's timers is to change
  nothing. After \<open>start_auto_emotion_switch(); create_emotion_display(parent);
  stop_auto_emotion_switch()\<close> the stop deletes the timer of line 80 and clears the
  pointer, but the timer of line 119 is still live: the next firing runs the callback,
  which replaces the image shown since line 71 by the one resolved for the name at index 0
  and moves the index from 0 to 1.
\<close>

theorem stop_after_create_leaves_timer_firing:
  "emotion_timer (stop_auto_emotion_switch
     (create_emotion_display (scenario_env\<lparr>otto_emoji_gif_get_by_name := Some\<rparr>)
        (start_auto_emotion_switch initial_state))) = None \<and>
   lv_timers (stop_auto_emotion_switch
     (create_emotion_display (scenario_env\<lparr>otto_emoji_gif_get_by_name := Some\<rparr>)
        (start_auto_emotion_switch initial_state))) = [\<lparr>timer_id = 0, timer_period = 3000\<rparr>] \<and>
   (\<lambda>s. (emotion_gif s, current_emotion_index s))
     (stop_auto_emotion_switch
        (create_emotion_display (scenario_env\<lparr>otto_emoji_gif_get_by_name := Some\<rparr>)
           (start_auto_emotion_switch initial_state))) =
     (Some \<lparr>gif_src = Some ''default''\<rparr>, 0) \<and>
   map_option (\<lambda>s. (emotion_gif s, current_emotion_index s))
     (lv_timer_handler (scenario_env\<lparr>otto_emoji_gif_get_by_name := Some\<rparr>)
        (stop_auto_emotion_switch
           (create_emotion_display (scenario_env\<lparr>otto_emoji_gif_get_by_name := Some\<rparr>)
              (start_auto_emotion_switch initial_state)))) =
     Some (Some \<lparr>gif_src = Some ''staticstate''\<rparr>, 1)"
  by (simp add: start_auto_emotion_switch_def stop_auto_emotion_switch_def
      create_emotion_display_def initial_state_def lv_timer_create_def lv_timer_del_def
      lv_gif_create_def lv_gif_set_src_def ESP_LOG_def Let_def lv_timer_handler_def
      emotion_timer_callback_def array_read_def emotion_sequence_def scenario_env_def)

text \<open>
  C8. \<open>demo_all_emotions\<close> logs its start, then for each of staticstate, happy, sad,
  anger, scare, buxue, in this order, calls \<open>set_emotion_by_name\<close> once and then blocks
  for \<open>pdMS_TO_TICKS(2000)\<close>, and logs its end. With the widget constructed the trace
  shows each call's effects followed by the delay, in list order.
\<close>

theorem demo_all_in_list_order:
  "demo_all_emotions env s =
     ESP_LOG ESP_LOG_INFO Msg_demo_done
       (foldl (\<lambda>s n. vTaskDelay (pdMS_TO_TICKS env 2000) (set_emotion_by_name env n s))
          (ESP_LOG ESP_LOG_INFO Msg_demo_begin s)
          [''staticstate'', ''happy'', ''sad'', ''anger'', ''scare'', ''buxue'']) \<and>
   (emotion_gif s \<noteq> None \<longrightarrow>
      trace (demo_all_emotions env s) =
        trace s @ [Log ESP_LOG_INFO Msg_demo_begin] @
        concat (map (\<lambda>n.
          (case otto_emoji_gif_get_by_name env n of
             Some emotion \<Rightarrow> [Gif_set_src emotion, Log ESP_LOG_INFO (Msg_manual_set n)]
           | None \<Rightarrow> [Log ESP_LOG_WARN (Msg_not_found n)]) @
          [Task_delay (pdMS_TO_TICKS env 2000)])
          [''staticstate'', ''happy'', ''sad'', ''anger'', ''scare'', ''buxue'']) @
        [Log ESP_LOG_INFO Msg_demo_done])"
proof -
  have eq: "demo_all_emotions env s =
     ESP_LOG ESP_LOG_INFO Msg_demo_done
       (foldl (\<lambda>s n. vTaskDelay (pdMS_TO_TICKS env 2000) (set_emotion_by_name env n s))
          (ESP_LOG ESP_LOG_INFO Msg_demo_begin s) all_emotions)"
    by (simp add: demo_all_emotions_def demo_loop_foldl)
  have tr: "trace (demo_all_emotions env s) =
        trace s @ [Log ESP_LOG_INFO Msg_demo_begin] @
        concat (map (\<lambda>n.
          (case otto_emoji_gif_get_by_name env n of
             Some emotion \<Rightarrow> [Gif_set_src emotion, Log ESP_LOG_INFO (Msg_manual_set n)]
           | None \<Rightarrow> [Log ESP_LOG_WARN (Msg_not_found n)]) @
          [Task_delay (pdMS_TO_TICKS env 2000)]) all_emotions) @
        [Log ESP_LOG_INFO Msg_demo_done]" if g: "emotion_gif s \<noteq> None"
  proof -
    from g have "emotion_gif (ESP_LOG ESP_LOG_INFO Msg_demo_begin s) \<noteq> None"
      by (simp add: ESP_LOG_def)
    from demo_steps_trace [OF this, of "pdMS_TO_TICKS env 2000" env all_emotions]
    show ?thesis
      by (simp add: eq ESP_LOG_def)
  qed
  show ?thesis
    using eq tr unfolding all_emotions_def by blast
qed

theorem demo_all_in_list_order_witness:
  "emotion_gif (ready_state :: string state) \<noteq> None \<and>
   trace (demo_all_emotions scenario_env (ready_state :: string state)) =
     [Log ESP_LOG_INFO Msg_demo_begin,
      Log ESP_LOG_WARN (Msg_not_found ''staticstate''), Task_delay 2000,
      Log ESP_LOG_WARN (Msg_not_found ''happy''), Task_delay 2000,
      Log ESP_LOG_WARN (Msg_not_found ''sad''), Task_delay 2000,
      Log ESP_LOG_WARN (Msg_not_found ''anger''), Task_delay 2000,
      Log ESP_LOG_WARN (Msg_not_found ''scare''), Task_delay 2000,
      Log ESP_LOG_WARN (Msg_not_found ''buxue''), Task_delay 2000,
      Log ESP_LOG_INFO Msg_demo_done]"
proof -
  have g: "emotion_gif (ready_state :: string state) \<noteq> None"
    by (simp add: ready_state_def)
  have t: "trace (ready_state :: string state) = []"
    by (simp add: ready_state_def initial_state_def)
  from demo_all_in_list_order [of scenario_env ready_state] g
  have "trace (demo_all_emotions scenario_env (ready_state :: string state)) =
        trace (ready_state :: string state) @ [Log ESP_LOG_INFO Msg_demo_begin] @
        concat (map (\<lambda>n.
          (case otto_emoji_gif_get_by_name scenario_env n of
             Some emotion \<Rightarrow> [Gif_set_src emotion, Log ESP_LOG_INFO (Msg_manual_set n)]
           | None \<Rightarrow> [Log ESP_LOG_WARN (Msg_not_found n)]) @
          [Task_delay (pdMS_TO_TICKS scenario_env 2000)])
          [''staticstate'', ''happy'', ''sad'', ''anger'', ''scare'', ''buxue'']) @
        [Log ESP_LOG_INFO Msg_demo_done]"
    by blast
  then show ?thesis
    using g by (simp add: t scenario_env_def)
qed

text \<open>
  C9. \<open>current_emotion_index\<close> is 0 initially, which is a valid position, and from a
  state where it is a valid position (at least 0 and below 6) the timer callback, a firing
  of the host's timers, \<open>set_emotion_by_name\<close>, \<open>start_auto_emotion_switch\<close>,
  \<open>stop_auto_emotion_switch\<close>, \<open>demo_all_emotions\<close> and
  \<open>create_emotion_display\<close> all return into a state where it is one.
\<close>

theorem index_always_in_range:
  "index_in_range (initial_state :: 'img state) \<and>
   (index_in_range s \<longrightarrow>
      (\<exists>s'. emotion_timer_callback env emotion_sequence s = Some s' \<and> index_in_range s') \<and>
      (\<exists>s'. lv_timer_handler env s = Some s' \<and> index_in_range s') \<and>
      index_in_range (set_emotion_by_name env name s) \<and>
      index_in_range (start_auto_emotion_switch s) \<and>
      index_in_range (stop_auto_emotion_switch s) \<and>
      index_in_range (demo_all_emotions env s) \<and>
      index_in_range (create_emotion_display env s))"
proof (intro conjI impI)
  show "index_in_range (initial_state :: 'img state)"
    by (simp add: index_in_range_def initial_state_def length_emotion_sequence)
next
  assume r: "index_in_range s"
  from tick_any [OF r, of env]
  show "\<exists>s'. emotion_timer_callback env emotion_sequence s = Some s' \<and> index_in_range s'"
    by blast
  from run_timers_in_range [OF r, of env "lv_timers s"]
  show "\<exists>s'. lv_timer_handler env s = Some s' \<and> index_in_range s'"
    by (simp add: lv_timer_handler_def)
  show "index_in_range (set_emotion_by_name env name s)"
    using r by (simp add: set_emotion_by_name_in_range)
  show "index_in_range (start_auto_emotion_switch s)"
    using r by (cases "emotion_timer s")
      (simp_all add: index_in_range_def start_when_stopped start_when_active)
  show "index_in_range (stop_auto_emotion_switch s)"
    using r by (cases "emotion_timer s")
      (simp_all add: index_in_range_def stop_when_stopped stop_when_active)
  show "index_in_range (demo_all_emotions env s)"
    using r by (simp add: index_in_range_def demo_all_emotions_def demo_loop_index ESP_LOG_def)
  show "index_in_range (create_emotion_display env s)"
    using r by (simp add: index_in_range_def create_emotion_display_def ESP_LOG_def
        lv_gif_set_src_def lv_timer_create_def Let_def)
qed

theorem index_always_in_range_witness:
  "index_in_range (ready_state\<lparr>current_emotion_index := 5\<rparr> :: string state) \<and>
   (\<exists>s'. emotion_timer_callback scenario_env emotion_sequence
            (ready_state\<lparr>current_emotion_index := 5\<rparr>) = Some s' \<and> index_in_range s') \<and>
   map_option current_emotion_index
     (emotion_timer_callback scenario_env emotion_sequence
        (ready_state\<lparr>current_emotion_index := 5\<rparr>)) = Some 0"
proof -
  let ?s = "ready_state\<lparr>current_emotion_index := 5\<rparr> :: string state"
  have r: "index_in_range ?s"
    by (simp add: index_in_range_def length_emotion_sequence)
  have v: "map_option current_emotion_index
             (emotion_timer_callback scenario_env emotion_sequence ?s) = Some 0"
    by (simp add: emotion_timer_callback_def ready_state_def initial_state_def array_read_def
        emotion_sequence_def scenario_env_def ESP_LOG_def lv_gif_set_src_def)
  from index_always_in_range [of ?s scenario_env] r v show ?thesis
    by blast
qed

text \<open>
  C10. Neither \<open>set_emotion_by_name\<close> nor \<open>demo_all_emotions\<close> writes
  \<open>current_emotion_index\<close>: for every state, registry and name the index after the
  call is the index before it.
\<close>

theorem manual_override_keeps_index:
  "current_emotion_index (set_emotion_by_name env n s) = current_emotion_index s \<and>
   current_emotion_index (demo_all_emotions env s) = current_emotion_index s"
  by (simp add: set_emotion_by_name_index demo_all_emotions_def demo_loop_index ESP_LOG_def)

end
